theory Spec2Isabelle
  imports Main
begin

section \<open>Python values used by piece\_table.py\<close>

text \<open>
  Python integers are unbounded, so line numbers, offsets and lengths are \<open>int\<close>.
  A Python \<open>str\<close> is a \<open>string\<close>; the line terminator is the character with code 10.
  Every exception the source can raise is a value of \<open>error\<close>. A method that
  mutates its object returns \<open>Inr\<close> of the new object when it returns normally and
  \<open>Inl\<close> of the exception together with the object as the raise leaves it.
\<close>

datatype error =
    ValueError string
  | KeyError int
  | IndexError
  | NotImplementedError string
  | AttributeError string
  | FileNotFoundError string
  | OverflowError

type_synonym 'st result = "(error \<times> 'st) + 'st"

definition state_after :: "'st result \<Rightarrow> 'st" where
  "state_after r = (case r of Inl (e, st) \<Rightarrow> st | Inr st \<Rightarrow> st)"

definition raised :: "'st result \<Rightarrow> error option" where
  "raised r = (case r of Inl (e, st) \<Rightarrow> Some e | Inr st \<Rightarrow> None)"

definition len :: "'a list \<Rightarrow> int" where
  "len xs = int (length xs)"

text \<open>\<open>s.endswith(t)\<close>.\<close>

definition endswith :: "string \<Rightarrow> string \<Rightarrow> bool" where
  "endswith s t = (length t \<le> length s \<and> drop (length s - length t) s = t)"

text \<open>
  \<open>s[a:b]\<close>: a negative bound counts from the end, and both bounds are clamped
  to \<open>0 .. len(s)\<close>; the slice is empty when the bounds cross.
\<close>

definition slice_bound :: "int \<Rightarrow> int \<Rightarrow> int" where
  "slice_bound n i = (if i < 0 then max (i + n) 0 else min i n)"

definition slice :: "'a list \<Rightarrow> int \<Rightarrow> int \<Rightarrow> 'a list" where
  "slice s a b =
     (let lo = slice_bound (len s) a; hi = slice_bound (len s) b
      in take (nat (hi - lo)) (drop (nat lo) s))"

text \<open>\<open>enumerate(data)\<close> and \<open>range(0, n)\<close>.\<close>

definition enumerate_py :: "'a list \<Rightarrow> (int \<times> 'a) list" where
  "enumerate_py xs = zip (map int [0..<length xs]) xs"

definition range0 :: "int \<Rightarrow> int list" where
  "range0 n = [0..n - 1]"

text \<open>
  \<open>xs[i] = v\<close>, \<open>xs.insert(i, v)\<close> and \<open>xs.pop(i)\<close> on a Python list. Item
  assignment and \<open>pop\<close> accept \<open>-len(xs) \<le> i < len(xs)\<close> and raise IndexError
  otherwise; \<open>insert\<close> clamps the position to \<open>0 .. len(xs)\<close>.

  \<open>insert\<close> and \<open>pop\<close> take their position as a C \<open>Py_ssize_t\<close>: CPython converts
  the integer first and raises OverflowError when it does not fit, which on a 64-bit
  build is outside \<open>-2^63 .. 2^63 - 1\<close>. (Item assignment raises IndexError for such an
  integer.) A Python list never holds more than \<open>2^63 - 1\<close> items, so a position within
  \<open>-len(xs) .. len(xs)\<close> always fits. A HOL list has no such bound, so the definitions
  say it: a position within the list is never an overflow. On every list Python can
  hold this is CPython's order of the two tests.
\<close>

definition fits_ssize_t :: "int \<Rightarrow> bool" where
  "fits_ssize_t i = (- (2 ^ 63) \<le> i \<and> i < 2 ^ 63)"

definition list_setitem :: "'a list \<Rightarrow> int \<Rightarrow> 'a \<Rightarrow> error + 'a list" where
  "list_setitem xs i v =
     (let j = (if i < 0 then i + len xs else i)
      in if 0 \<le> j \<and> j < len xs then Inr (xs[nat j := v]) else Inl IndexError)"

definition list_insert :: "'a list \<Rightarrow> int \<Rightarrow> 'a \<Rightarrow> error + 'a list" where
  "list_insert xs i v =
     (if \<not> fits_ssize_t i \<and> \<not> (- len xs \<le> i \<and> i \<le> len xs) then Inl OverflowError
      else (let j = (if i < 0 then max (i + len xs) 0 else min i (len xs))
            in Inr (take (nat j) xs @ [v] @ drop (nat j) xs)))"

definition list_pop :: "'a list \<Rightarrow> int \<Rightarrow> error + 'a list" where
  "list_pop xs i =
     (let j = (if i < 0 then i + len xs else i)
      in if 0 \<le> j \<and> j < len xs then Inr (take (nat j) xs @ drop (nat j + 1) xs)
         else if fits_ssize_t i then Inl IndexError
         else Inl OverflowError)"

text \<open>
  The files the program reads and writes: a map from file names to the text that
  reading the file in Python's text mode delivers. Opening a missing file for reading
  raises FileNotFoundError; opening a file for writing is taken to succeed. Text mode
  delivers every \<open>CR LF\<close> and every lone \<open>CR\<close> as the line terminator, so that is what
  a written text reads back as (on a POSIX system, where writing changes nothing).
\<close>

type_synonym files = "string \<rightharpoonup> string"

fun universal_newlines :: "string \<Rightarrow> string" where
  "universal_newlines [] = []"
| "universal_newlines [c] = (if c = CHR 0x0D then [CHR 0x0A] else [c])"
| "universal_newlines (c # d # rest) =
     (if c = CHR 0x0D
      then (if d = CHR 0x0A then CHR 0x0A # universal_newlines rest
            else CHR 0x0A # universal_newlines (d # rest))
      else c # universal_newlines (d # rest))"

section \<open>class ArrayOfStrings\<close>

record ArrayOfStrings =
  data :: "string list"

definition ArrayOfStrings_init :: "string list option \<Rightarrow> ArrayOfStrings" where
  "ArrayOfStrings_init d = \<lparr>data = (case d of None \<Rightarrow> [] | Some xs \<Rightarrow> xs)\<rparr>"

definition ArrayOfStrings_edit_line ::
  "int \<Rightarrow> string \<Rightarrow> ArrayOfStrings \<Rightarrow> ArrayOfStrings result" where
  "ArrayOfStrings_edit_line line_number new_line0 self =
     (let new_line = (if \<not> endswith new_line0 ''\<newline>'' then new_line0 @ ''\<newline>''
                      else new_line0)
      in case list_setitem (data self) line_number new_line of
           Inl e \<Rightarrow> Inl (e, self)
         | Inr d \<Rightarrow> Inr (self\<lparr>data := d\<rparr>))"

definition ArrayOfStrings_add_line ::
  "int \<Rightarrow> string \<Rightarrow> ArrayOfStrings \<Rightarrow> ArrayOfStrings result" where
  "ArrayOfStrings_add_line line_number new_line0 self =
     (let new_line = (if \<not> endswith new_line0 ''\<newline>'' then new_line0 @ ''\<newline>''
                      else new_line0)
      in case list_insert (data self) line_number new_line of
           Inl e \<Rightarrow> Inl (e, self)
         | Inr d \<Rightarrow> Inr (self\<lparr>data := d\<rparr>))"

definition ArrayOfStrings_remove_line :: "int \<Rightarrow> ArrayOfStrings \<Rightarrow> ArrayOfStrings result" where
  "ArrayOfStrings_remove_line line_number self =
     (case list_pop (data self) line_number of
        Inl e \<Rightarrow> Inl (e, self)
      | Inr d \<Rightarrow> Inr (self\<lparr>data := d\<rparr>))"

definition ArrayOfStrings_str :: "ArrayOfStrings \<Rightarrow> string" where
  "ArrayOfStrings_str self = concat (data self)"

section \<open>class Source, class Piece\<close>

text \<open>
  \<open>Source\<close> is a \<open>StrEnum\<close>: its members are the strings below, and the \<open>source\<close>
  field of a \<open>Piece\<close> is compared with them by string equality. The dataclass does
  not restrict the field, so it is a \<open>string\<close> here and the \<open>else\<close> branches of
  \<open>write_file\<close> and \<open>__str__\<close> stay in the model.
\<close>

definition Source_original :: string where
  "Source_original = ''original''"

definition Source_add :: string where
  "Source_add = ''add''"

record Piece =
  source :: string
  start :: int
  length_p :: int

section \<open>class PieceTable\<close>

record PieceTable =
  original :: string
  line_indexes :: "int \<rightharpoonup> int"
  lines :: int
  add :: string
  pieces :: "Piece list"

text \<open>The loop of \<open>make_line_indexes\<close> over \<open>enumerate(data)\<close>.\<close>

fun line_indexes_loop ::
  "(int \<times> char) list \<Rightarrow> (int \<rightharpoonup> int) \<times> int \<Rightarrow> (int \<rightharpoonup> int) \<times> int" where
  "line_indexes_loop [] (indexes, line_number) = (indexes, line_number)"
| "line_indexes_loop ((index, c) # rest) (indexes, line_number) =
     (if c = CHR 0x0A
      then line_indexes_loop rest (indexes(line_number + 1 \<mapsto> index), line_number + 1)
      else line_indexes_loop rest (indexes, line_number))"

definition make_line_indexes :: "string \<Rightarrow> (int \<rightharpoonup> int) \<times> int" where
  "make_line_indexes d = line_indexes_loop (enumerate_py d) ([0 \<mapsto> 0], 0)"

text \<open>\<open>_initialize\<close> assigns every field, so it needs no previous object.\<close>

definition initialize :: "string \<Rightarrow> PieceTable" where
  "initialize orig =
     \<lparr>original = orig,
      line_indexes = fst (make_line_indexes orig),
      lines = snd (make_line_indexes orig),
      add = [],
      pieces = (if orig \<noteq> []
                then [\<lparr>source = Source_original, start = 0, length_p = len orig\<rparr>]
                else [])\<rparr>"

definition PieceTable_init :: "string \<Rightarrow> PieceTable" where
  "PieceTable_init orig = initialize orig"

definition read_file :: "files \<Rightarrow> string \<Rightarrow> PieceTable \<Rightarrow> PieceTable result" where
  "read_file fs file_name self =
     (case fs file_name of
        None \<Rightarrow> Inl (FileNotFoundError file_name, self)
      | Some orig \<Rightarrow> Inr (initialize orig))"

text \<open>
  The loop shared by \<open>write_file\<close> and \<open>__str__\<close>: the text produced so far is the
  accumulator, and a piece with an unknown source raises with that text already out.
\<close>

fun pieces_loop :: "PieceTable \<Rightarrow> Piece list \<Rightarrow> string \<Rightarrow> (error \<times> string) + string" where
  "pieces_loop self [] output = Inr output"
| "pieces_loop self (piece # rest) output =
     (if source piece = Source_original
      then pieces_loop self rest
             (output @ slice (original self) (start piece) (start piece + length_p piece))
      else if source piece = Source_add
      then pieces_loop self rest
             (output @ slice (add self) (start piece) (start piece + length_p piece))
      else Inl (ValueError (''Invalid Piece source: '' @ source piece), output))"

definition write_file :: "PieceTable \<Rightarrow> string \<Rightarrow> files \<Rightarrow> files result" where
  "write_file self file_name fs =
     (case pieces_loop self (pieces self) [] of
        Inl (e, written) \<Rightarrow> Inl (e, fs(file_name \<mapsto> universal_newlines written))
      | Inr written \<Rightarrow> Inr (fs(file_name \<mapsto> universal_newlines written)))"

definition PieceTable_str :: "PieceTable \<Rightarrow> error + string" where
  "PieceTable_str self =
     (case pieces_loop self (pieces self) [] of
        Inl (e, output) \<Rightarrow> Inl e
      | Inr output \<Rightarrow> Inr output)"

text \<open>
  \<open>edit_line\<close> raises on its first statement. The statements after the \<open>raise\<close>, an
  unfinished copy of \<open>add_line\<close> with an incomplete expression in it, are never executed
  and are not part of the model.
\<close>

definition PieceTable_edit_line :: "int \<Rightarrow> string \<Rightarrow> PieceTable \<Rightarrow> PieceTable result" where
  "PieceTable_edit_line line_number new_line self = Inl (NotImplementedError ''No Worky'', self)"

text \<open>
  The first loop of \<open>add_line\<close>, over \<open>self.pieces\<close>, with \<open>new_pieces\<close> and
  \<open>current_index\<close> as its state. Only the two \<open>continue\<close> branches advance
  \<open>current_index\<close>.
\<close>

fun splice_loop ::
  "Piece \<Rightarrow> int \<Rightarrow> Piece list \<Rightarrow> Piece list \<times> int \<Rightarrow> Piece list \<times> int" where
  "splice_loop new_piece insert_index [] (new_pieces, current_index) =
     (new_pieces, current_index)"
| "splice_loop new_piece insert_index (piece # rest) (new_pieces, current_index) =
     (if current_index + length_p piece < insert_index
      then splice_loop new_piece insert_index rest
             (new_pieces @ [piece], current_index + length_p piece)
      else if current_index > insert_index
      then splice_loop new_piece insert_index rest
             (new_pieces @ [piece], current_index + length_p piece)
      else if current_index = insert_index
      then splice_loop new_piece insert_index rest
             (new_pieces @ [new_piece, piece], current_index)
      else (let splice_distance = insert_index - current_index
            in splice_loop new_piece insert_index rest
                 (new_pieces @
                    [\<lparr>source = source piece, start = start piece, length_p = splice_distance\<rparr>,
                     new_piece,
                     \<lparr>source = source piece, start = start piece + splice_distance,
                      length_p = length_p piece - splice_distance\<rparr>],
                  current_index)))"

text \<open>
  The second loop of \<open>add_line\<close>, over \<open>range(0, self.lines)\<close>, building the local
  \<open>new_line_indexes\<close>. Reading a missing key of \<open>self.line_indexes\<close> raises KeyError.
\<close>

fun new_line_indexes_loop ::
  "(int \<rightharpoonup> int) \<Rightarrow> int \<Rightarrow> int \<Rightarrow> int \<Rightarrow> int list \<Rightarrow> (int \<rightharpoonup> int) \<Rightarrow> error + (int \<rightharpoonup> int)"
  where
  "new_line_indexes_loop old line_number insert_index n [] new_line_indexes =
     Inr new_line_indexes"
| "new_line_indexes_loop old line_number insert_index n (i # rest) new_line_indexes =
     (if i < line_number
      then (case old i of
              None \<Rightarrow> Inl (KeyError i)
            | Some v \<Rightarrow> new_line_indexes_loop old line_number insert_index n rest
                          (new_line_indexes(i \<mapsto> v)))
      else if i = line_number
      then new_line_indexes_loop old line_number insert_index n rest
             (new_line_indexes(i \<mapsto> insert_index))
      else (case old (i - 1) of
              None \<Rightarrow> Inl (KeyError (i - 1))
            | Some v \<Rightarrow> new_line_indexes_loop old line_number insert_index n rest
                          (new_line_indexes(i \<mapsto> v + n))))"

text \<open>
  \<open>add_line\<close>. The object is written three times (\<open>self.add\<close>, \<open>self.pieces\<close>,
  \<open>self.lines\<close>), and each raise returns the object as it is at that point. The
  dictionary built by the second loop is a local variable that is never stored.
\<close>

definition PieceTable_add_line :: "int \<Rightarrow> string \<Rightarrow> PieceTable \<Rightarrow> PieceTable result" where
  "PieceTable_add_line line_number new_line0 self =
     (let new_line = (if \<not> endswith new_line0 ''\<newline>'' then new_line0 @ ''\<newline>''
                      else new_line0)
      in if line_number > lines self
         then Inl (ValueError ''Line number too large'', self)
         else
           (let new_piece = \<lparr>source = Source_add, start = len (add self),
                             length_p = len new_line\<rparr>;
                self1 = self\<lparr>add := add self @ new_line\<rparr>
            in (case line_indexes self1 line_number of
                  None \<Rightarrow> Inl (KeyError line_number, self1)
                | Some v \<Rightarrow>
                   (let insert_index = v + 1;
                        new_pieces =
                          fst (splice_loop new_piece insert_index (pieces self1) ([], 0));
                        self2 = self1\<lparr>pieces := new_pieces\<rparr>;
                        self3 = self2\<lparr>lines := lines self2 + 1\<rparr>
                    in (case new_line_indexes_loop (line_indexes self3) line_number
                               insert_index (length_p new_piece) (range0 (lines self3))
                               Map.empty of
                          Inl e \<Rightarrow> Inl (e, self3)
                        | Inr new_line_indexes \<Rightarrow> Inr self3)))))"

text \<open>
  Calling a method on a \<open>PieceTable\<close>. The class defines \<open>read_file\<close>, \<open>write_file\<close>,
  \<open>edit_line\<close> and \<open>add_line\<close>; it defines no \<open>remove_line\<close>, so that call raises
  AttributeError when the attribute is looked up. A caller that catches the exception
  goes on with the object and the files as the raise left them.
\<close>

datatype call =
    Read_file string
  | Write_file string
  | Edit_line int string
  | Add_line int string
  | Remove_line int

fun PieceTable_call :: "call \<Rightarrow> files \<times> PieceTable \<Rightarrow> (files \<times> PieceTable) result" where
  "PieceTable_call (Read_file file_name) (fs, self) =
     (case read_file fs file_name self of
        Inl (e, self') \<Rightarrow> Inl (e, (fs, self'))
      | Inr self' \<Rightarrow> Inr (fs, self'))"
| "PieceTable_call (Write_file file_name) (fs, self) =
     (case write_file self file_name fs of
        Inl (e, fs') \<Rightarrow> Inl (e, (fs', self))
      | Inr fs' \<Rightarrow> Inr (fs', self))"
| "PieceTable_call (Edit_line line_number new_line) (fs, self) =
     (case PieceTable_edit_line line_number new_line self of
        Inl (e, self') \<Rightarrow> Inl (e, (fs, self'))
      | Inr self' \<Rightarrow> Inr (fs, self'))"
| "PieceTable_call (Add_line line_number new_line) (fs, self) =
     (case PieceTable_add_line line_number new_line self of
        Inl (e, self') \<Rightarrow> Inl (e, (fs, self'))
      | Inr self' \<Rightarrow> Inr (fs, self'))"
| "PieceTable_call (Remove_line line_number) (fs, self) =
     Inl (AttributeError ''remove_line'', (fs, self))"

fun run :: "call list \<Rightarrow> files \<times> PieceTable \<Rightarrow> files \<times> PieceTable" where
  "run [] w = w"
| "run (c # cs) w = run cs (state_after (PieceTable_call c w))"

section \<open>Notions used to state the properties\<close>

text \<open>
  The offsets of the line terminators of a text, in increasing order.
\<close>

definition terminator_offsets :: "string \<Rightarrow> nat list" where
  "terminator_offsets d = filter (\<lambda>i. d ! i = CHR 0x0A) [0..<length d]"

definition offsets_from :: "nat \<Rightarrow> string \<Rightarrow> int list" where
  "offsets_from k d = map (\<lambda>i. int (k + i)) (terminator_offsets d)"

text \<open>
  A piece lies inside the buffer its source names: \<open>original\<close> or \<open>add\<close>, with a
  non-negative start and length.
\<close>

definition piece_ok :: "string \<Rightarrow> string \<Rightarrow> Piece \<Rightarrow> bool" where
  "piece_ok orig added p =
     (0 \<le> start p \<and> 0 \<le> length_p p \<and>
      (if source p = Source_original then start p + length_p p \<le> len orig
       else source p = Source_add \<and> start p + length_p p \<le> len added))"

definition pieces_ok :: "PieceTable \<Rightarrow> bool" where
  "pieces_ok self = list_all (piece_ok (original self) (add self)) (pieces self)"


section \<open>Loading and serializing\<close>

lemma slice_whole: "slice s 0 (0 + len s) = s"
  by (simp add: slice_def slice_bound_def len_def)

lemma str_initialize: "PieceTable_str (initialize T) = Inr T"
  by (cases T) (simp_all add: PieceTable_str_def initialize_def slice_whole del: add_0)

text \<open>
  C1. Round trip: for every text \<open>T\<close>, the empty text included, a piece table
  constructed from \<open>T\<close>, or one that has read a file holding \<open>T\<close>, serializes
  (\<open>__str__\<close>) to exactly \<open>T\<close>.
\<close>

theorem load_serialize_roundtrip:
  "PieceTable_str (PieceTable_init T) = Inr T \<and>
   PieceTable_str (state_after (read_file (fs(f \<mapsto> T)) f self)) = Inr T"
  by (simp add: PieceTable_init_def read_file_def state_after_def str_initialize)

section \<open>The line index built by make\_line\_indexes\<close>

lemma terminator_offsets_Cons:
  "terminator_offsets (c # d) =
     (if c = CHR 0x0A then [0] else []) @ map Suc (terminator_offsets d)"
proof -
  have "[0..<length (c # d)] = 0 # map Suc [0..<length d]"
    by (simp add: upt_conv_Cons map_Suc_upt del: upt_Suc)
  then show ?thesis
    by (simp add: terminator_offsets_def filter_map o_def del: upt_Suc)
qed

lemma offsets_from_Cons:
  "offsets_from k (c # d) = (if c = CHR 0x0A then [int k] else []) @ offsets_from (Suc k) d"
  by (simp add: offsets_from_def terminator_offsets_Cons o_def)

lemma line_indexes_loop_char:
  "line_indexes_loop (zip (map int [k..<k + length d]) d) (m, n) =
     ((\<lambda>j. if n < j \<and> j \<le> n + len (offsets_from k d)
            then Some (offsets_from k d ! nat (j - n - 1)) else m j),
      n + len (offsets_from k d))"
proof (induction d arbitrary: k m n)
  case Nil
  then show ?case by (auto simp: offsets_from_def terminator_offsets_def len_def fun_eq_iff)
next
  case (Cons c d)
  have upt: "[k..<k + length (c # d)] = k # [Suc k..<Suc k + length d]"
    by (simp add: upt_conv_Cons del: upt_Suc)
  show ?case
  proof (cases "c = CHR 0x0A")
    case True
    have "(\<lambda>j. if n + 1 < j \<and> j \<le> n + 1 + len (offsets_from (Suc k) d)
              then Some (offsets_from (Suc k) d ! nat (j - (n + 1) - 1))
              else (m(n + 1 \<mapsto> int k)) j) =
          (\<lambda>j. if n < j \<and> j \<le> n + len (offsets_from k (c # d))
              then Some (offsets_from k (c # d) ! nat (j - n - 1)) else m j)"
    proof
      fix j
      show "(if n + 1 < j \<and> j \<le> n + 1 + len (offsets_from (Suc k) d)
              then Some (offsets_from (Suc k) d ! nat (j - (n + 1) - 1))
              else (m(n + 1 \<mapsto> int k)) j) =
            (if n < j \<and> j \<le> n + len (offsets_from k (c # d))
              then Some (offsets_from k (c # d) ! nat (j - n - 1)) else m j)"
      proof (cases "n + 1 < j")
        case True
        then have "nat (j - n - 1) = Suc (nat (j - (n + 1) - 1))" by simp
        then show ?thesis using True \<open>c = CHR 0x0A\<close>
          by (simp add: offsets_from_Cons len_def)
      next
        case False
        then show ?thesis using \<open>c = CHR 0x0A\<close>
          by (auto simp: offsets_from_Cons len_def)
      qed
    qed
    then have F: "(\<lambda>j. if n + 1 < j \<and> j \<le> n + 1 + len (offsets_from (Suc k) d)
              then Some (offsets_from (Suc k) d ! nat (j - (n + 1) - 1))
              else (m(n + 1 \<mapsto> int k)) j,
           n + 1 + len (offsets_from (Suc k) d)) =
          (\<lambda>j. if n < j \<and> j \<le> n + len (offsets_from k (c # d))
              then Some (offsets_from k (c # d) ! nat (j - n - 1)) else m j,
           n + len (offsets_from k (c # d)))"
      using True by (simp add: offsets_from_Cons len_def)
    have "line_indexes_loop (zip (map int [k..<k + length (c # d)]) (c # d)) (m, n) =
          line_indexes_loop (zip (map int [Suc k..<Suc k + length d]) d)
            (m(n + 1 \<mapsto> int k), n + 1)"
      using True by (subst upt) simp
    also note Cons.IH[of "Suc k" "m(n + 1 \<mapsto> int k)" "n + 1"]
    also note F
    finally show ?thesis .
  next
    case False
    have "line_indexes_loop (zip (map int [k..<k + length (c # d)]) (c # d)) (m, n) =
          line_indexes_loop (zip (map int [Suc k..<Suc k + length d]) d) (m, n)"
      using False by (subst upt) simp
    also note Cons.IH[of "Suc k" m n]
    also have "offsets_from (Suc k) d = offsets_from k (c # d)"
      using False by (simp add: offsets_from_Cons)
    finally show ?thesis .
  qed
qed

lemma make_line_indexes_char:
  "make_line_indexes d =
     ((\<lambda>k. if k = 0 then Some 0
           else if 1 \<le> k \<and> k \<le> len (terminator_offsets d)
           then Some (int (terminator_offsets d ! nat (k - 1))) else None),
      len (terminator_offsets d))"
proof -
  have o: "offsets_from 0 d = map int (terminator_offsets d)"
    by (simp add: offsets_from_def)
  have "make_line_indexes d =
     ((\<lambda>j. if 0 < j \<and> j \<le> 0 + len (offsets_from 0 d)
            then Some (offsets_from 0 d ! nat (j - 0 - 1)) else [0 \<mapsto> 0] j),
      0 + len (offsets_from 0 d))"
    unfolding make_line_indexes_def enumerate_py_def
    using line_indexes_loop_char[of 0 d "[0 \<mapsto> 0]" 0] by simp
  also have "\<dots> = ((\<lambda>k. if k = 0 then Some 0
           else if 1 \<le> k \<and> k \<le> len (terminator_offsets d)
           then Some (int (terminator_offsets d ! nat (k - 1))) else None),
      len (terminator_offsets d))"
    by (auto simp: o len_def fun_eq_iff)
  finally show ?thesis .
qed

lemma terminator_offsets_sorted: "sorted_wrt (<) (terminator_offsets d)"
  by (simp add: terminator_offsets_def sorted_wrt_filter)

text \<open>
  C4, as the code has it. After loading a text with \<open>N\<close> line terminators, \<open>lines\<close> is
  \<open>N\<close> and \<open>line_indexes\<close> has exactly the keys \<open>0 .. N\<close>, one more than \<open>lines\<close>. Entry
  \<open>0\<close> is \<open>0\<close>, and entry \<open>k\<close>, for \<open>1 \<le> k \<le> N\<close>, is the offset of the \<open>k\<close>-th line
  terminator itself, one less than the offset at which line \<open>k\<close> starts. The terminator
  offsets are strictly increasing, so the entries from \<open>1\<close> on are; entry \<open>1\<close> equals
  entry \<open>0\<close> when the text starts with a terminator.
\<close>

theorem line_indexes_after_load:
  "lines (PieceTable_init d) = len (terminator_offsets d) \<and>
   line_indexes (PieceTable_init d) k =
     (if k = 0 then Some 0
      else if 1 \<le> k \<and> k \<le> lines (PieceTable_init d)
      then Some (int (terminator_offsets d ! nat (k - 1))) else None) \<and>
   sorted_wrt (<) (terminator_offsets d)"
  by (simp add: PieceTable_init_def initialize_def make_line_indexes_char
      terminator_offsets_sorted)

text \<open>
  C4 as stated fails on the text that is one line terminator: the entries for lines \<open>0\<close>
  and \<open>1\<close> are both \<open>0\<close> (not strictly increasing, and line \<open>1\<close> starts at offset \<open>1\<close>),
  and there are two entries for a line count of \<open>1\<close>.
\<close>

theorem line_indexes_counterexample:
  "line_indexes (PieceTable_init ''\<newline>'') 0 = Some 0 \<and>
   line_indexes (PieceTable_init ''\<newline>'') 1 = Some 0 \<and>
   line_indexes (PieceTable_init ''\<newline>'') 2 = None \<and>
   lines (PieceTable_init ''\<newline>'') = 1"
  by code_simp

lemma lines_initialize_nonneg: "0 \<le> lines (initialize T)"
  by (simp add: initialize_def make_line_indexes_char len_def)

lemma line_indexes_initialize:
  "(\<exists>v. line_indexes (initialize T) k = Some v) \<longleftrightarrow> 0 \<le> k \<and> k \<le> lines (initialize T)"
  by (auto simp: initialize_def make_line_indexes_char len_def)

section \<open>Pieces stay inside their buffers\<close>

lemma Source_distinct: "Source_add \<noteq> Source_original"
  by (simp add: Source_add_def Source_original_def)

lemma piece_ok_grow: "piece_ok orig added p \<Longrightarrow> piece_ok orig (added @ extra) p"
  by (auto simp: piece_ok_def len_def split: if_splits)

lemma len_slice: "0 \<le> a \<Longrightarrow> 0 \<le> l \<Longrightarrow> a + l \<le> len s \<Longrightarrow> len (slice s a (a + l)) = l"
  by (auto simp: slice_def slice_bound_def len_def Let_def)

lemma pieces_loop_ok:
  "list_all (piece_ok (original self) (add self)) ps \<Longrightarrow>
   \<exists>out. pieces_loop self ps acc = Inr (acc @ out) \<and> len out = sum_list (map length_p ps)"
proof (induction ps arbitrary: acc)
  case Nil
  then show ?case by (simp add: len_def)
next
  case (Cons p ps)
  from Cons.prems have p: "piece_ok (original self) (add self) p"
    and ps: "list_all (piece_ok (original self) (add self)) ps" by simp_all
  let ?buf = "if source p = Source_original then original self else add self"
  let ?sl = "slice ?buf (start p) (start p + length_p p)"
  from p have src: "source p = Source_original \<or> source p = Source_add"
    by (auto simp: piece_ok_def split: if_splits)
  from p have l: "len ?sl = length_p p"
    by (auto simp: piece_ok_def len_slice split: if_splits)
  from Cons.IH[OF ps, of "acc @ ?sl"] obtain out where
    out: "pieces_loop self ps (acc @ ?sl) = Inr ((acc @ ?sl) @ out)"
      "len out = sum_list (map length_p ps)" by blast
  have "pieces_loop self (p # ps) acc = Inr (acc @ (?sl @ out))"
    using src out(1) by (auto simp: Source_distinct)
  moreover have "len (?sl @ out) = sum_list (map length_p (p # ps))"
    using l out(2) by (simp add: len_def)
  ultimately show ?case by blast
qed

lemma splice_loop_ok:
  "list_all (piece_ok orig added) ps \<Longrightarrow> list_all (piece_ok orig added) acc \<Longrightarrow>
   piece_ok orig added np \<Longrightarrow>
   list_all (piece_ok orig added) (fst (splice_loop np ins ps (acc, cur)))"
proof (induction ps arbitrary: acc cur)
  case Nil
  then show ?case by simp
next
  case (Cons p ps)
  from Cons.prems have p: "piece_ok orig added p"
    and ps: "list_all (piece_ok orig added) ps" by simp_all
  show ?case
  proof (cases "cur + length_p p < ins \<or> cur > ins \<or> cur = ins")
    case True
    then show ?thesis using Cons.IH[OF ps _ Cons.prems(3)] Cons.prems(2,3) p
      by auto
  next
    case False
    then have d: "0 < ins - cur" "ins - cur \<le> length_p p" by auto
    have l: "piece_ok orig added \<lparr>source = source p, start = start p, length_p = ins - cur\<rparr>"
      using p d by (auto simp: piece_ok_def split: if_splits)
    have r: "piece_ok orig added \<lparr>source = source p, start = start p + (ins - cur),
        length_p = length_p p - (ins - cur)\<rparr>"
      using p d by (auto simp: piece_ok_def split: if_splits)
    show ?thesis using False Cons.IH[OF ps _ Cons.prems(3)] Cons.prems(2,3) l r
      by (simp add: Let_def)
  qed
qed

lemma initialize_ok: "pieces_ok (initialize T)"
  by (simp add: pieces_ok_def initialize_def piece_ok_def len_def)

lemma add_line_ok:
  assumes "pieces_ok self"
  shows "pieces_ok (state_after (PieceTable_add_line n text self))"
proof -
  define new_line where "new_line = (if \<not> endswith text ''\<newline>'' then text @ ''\<newline>'' else text)"
  define np where "np = \<lparr>source = Source_add, start = len (add self), length_p = len new_line\<rparr>"
  have grown: "list_all (piece_ok (original self) (add self @ new_line)) (pieces self)"
    using assms by (auto simp: pieces_ok_def list_all_iff intro: piece_ok_grow)
  have np: "piece_ok (original self) (add self @ new_line) np"
    by (simp add: np_def piece_ok_def len_def Source_distinct)
  have spl: "list_all (piece_ok (original self) (add self @ new_line))
     (fst (splice_loop np ins (pieces self) ([], 0)))" for ins
    using splice_loop_ok[OF grown _ np, of "[]"] by simp
  show ?thesis
    using assms grown spl
    by (auto simp: PieceTable_add_line_def Let_def state_after_def pieces_ok_def
        new_line_def[symmetric] np_def[symmetric] split: option.splits sum.splits)
qed

lemma call_ok:
  "pieces_ok (snd w) \<Longrightarrow> pieces_ok (snd (state_after (PieceTable_call c w)))"
proof (cases w)
  case (Pair fs self)
  assume ok: "pieces_ok (snd w)"
  show ?thesis
  proof (cases c)
    case (Add_line n t)
    then show ?thesis using add_line_ok[of self n t] ok Pair
      by (auto simp: state_after_def split: sum.splits)
  qed (use ok Pair in \<open>auto simp: state_after_def read_file_def initialize_ok
        PieceTable_edit_line_def split: sum.splits option.splits\<close>)
qed

lemma run_ok: "pieces_ok (snd w) \<Longrightarrow> pieces_ok (snd (run cs w))"
  by (induction cs arbitrary: w) (simp_all add: call_ok)

lemma str_ok:
  assumes "pieces_ok self"
  shows "\<exists>s. PieceTable_str self = Inr s \<and> len s = sum_list (map length_p (pieces self))"
  using pieces_loop_ok[of self "pieces self" "[]"] assms
  by (auto simp: pieces_ok_def PieceTable_str_def)

lemma write_file_ok:
  assumes "pieces_ok self"
  shows "raised (write_file self f fs) = None"
  using pieces_loop_ok[of self "pieces self" "[]"] assms
  by (auto simp: pieces_ok_def write_file_def raised_def)

lemma run_init_ok: "pieces_ok (snd (run cs (fs, PieceTable_init T)))"
  by (rule run_ok) (simp add: PieceTable_init_def initialize_ok)

text \<open>
  C10. After construction from any text and any sequence of method calls (\<open>read_file\<close>,
  \<open>write_file\<close>, \<open>edit_line\<close>, \<open>add_line\<close>, \<open>remove_line\<close>, whether they return or
  raise), every piece of the piece list has source \<open>original\<close> or \<open>add\<close>, \<open>__str__\<close>
  returns a string and \<open>write_file\<close> returns: the branch raising ValueError for an
  invalid piece source is never taken.
\<close>

theorem invalid_source_unreachable:
  "list_all (\<lambda>p. source p = Source_original \<or> source p = Source_add)
     (pieces (snd (run cs (fs, PieceTable_init T)))) \<and>
   (\<exists>s. PieceTable_str (snd (run cs (fs, PieceTable_init T))) = Inr s) \<and>
   raised (PieceTable_call (Write_file f) (run cs (fs, PieceTable_init T))) = None"
proof -
  obtain fs' self where w: "run cs (fs, PieceTable_init T) = (fs', self)"
    by (cases "run cs (fs, PieceTable_init T)")
  have ok: "pieces_ok self" using run_init_ok[of cs fs T] w by simp
  have "raised (write_file self f fs') = None" using ok by (rule write_file_ok)
  then have "raised (PieceTable_call (Write_file f) (fs', self)) = None"
    by (auto simp: raised_def split: sum.splits)
  moreover have "\<exists>s. PieceTable_str self = Inr s" using str_ok[OF ok] by blast
  moreover have "list_all (\<lambda>p. source p = Source_original \<or> source p = Source_add)
      (pieces self)"
    using ok by (auto simp: pieces_ok_def piece_ok_def list_all_iff split: if_splits)
  ultimately show ?thesis using w by simp
qed

text \<open>
  The sum of the piece lengths is the length of the serialized document, in every state
  the methods can reach.
\<close>

lemma sum_of_piece_lengths:
  "\<exists>s. PieceTable_str (snd (run cs (fs, PieceTable_init T))) = Inr s \<and>
       len s = sum_list (map length_p (pieces (snd (run cs (fs, PieceTable_init T)))))"
  by (rule str_ok) (rule run_init_ok)

text \<open>
  C3. Appending a line to the one-line document \<open>a\<close>: \<open>add_line(1, "x")\<close> returns, the
  document is not empty, and the piece list ends with a piece of length \<open>0\<close>.
\<close>

theorem add_line_zero_length_piece:
  "raised (PieceTable_add_line 1 ''x'' (PieceTable_init ''a\<newline>'')) = None \<and>
   pieces (state_after (PieceTable_add_line 1 ''x'' (PieceTable_init ''a\<newline>''))) =
     [\<lparr>source = Source_original, start = 0, length_p = 2\<rparr>,
      \<lparr>source = Source_add, start = 0, length_p = 2\<rparr>,
      \<lparr>source = Source_original, start = 2, length_p = 0\<rparr>] \<and>
   PieceTable_str (state_after (PieceTable_add_line 1 ''x'' (PieceTable_init ''a\<newline>''))) =
     Inr ''a\<newline>x\<newline>''"
  by code_simp

section \<open>PieceTable.add\_line\<close>

lemma new_line_indexes_loop_returns:
  "(\<forall>i\<in>set is. (i < ln \<longrightarrow> old i \<noteq> None) \<and> (ln < i \<longrightarrow> old (i - 1) \<noteq> None)) \<Longrightarrow>
   \<exists>m. new_line_indexes_loop old ln ins n is acc = Inr m"
  by (induction "is" arbitrary: acc) auto


lemma add_line_fresh_eq:
  assumes "0 \<le> n" "n \<le> lines (initialize T)"
    and v: "line_indexes (initialize T) n = Some v"
  shows "PieceTable_add_line n t (initialize T) =
        Inr ((initialize T)\<lparr>add := add (initialize T) @
                 (if \<not> endswith t ''\<newline>'' then t @ ''\<newline>'' else t),
               pieces := fst (splice_loop
                  \<lparr>source = Source_add, start = len (add (initialize T)),
                     length_p = len (if \<not> endswith t ''\<newline>'' then t @ ''\<newline>'' else t)\<rparr>
                  (v + 1) (pieces (initialize T)) ([], 0)),
               lines := lines (initialize T) + 1\<rparr>)"
proof -
  have "\<forall>i\<in>set (range0 (lines (initialize T) + 1)).
          (i < n \<longrightarrow> line_indexes (initialize T) i \<noteq> None) \<and>
          (n < i \<longrightarrow> line_indexes (initialize T) (i - 1) \<noteq> None)"
    using assms(1,2) by (auto simp: range0_def line_indexes_initialize)
  from new_line_indexes_loop_returns[OF this]
  have loop: "\<exists>m. new_line_indexes_loop (line_indexes (initialize T)) n ins k
                 (range0 (lines (initialize T) + 1)) acc = Inr m" for ins k acc .
  define new_line where
    "new_line = (if \<not> endswith t ''\<newline>'' then t @ ''\<newline>'' else t)"
  obtain m where m: "new_line_indexes_loop (line_indexes (initialize T)) n (v + 1)
      (len new_line) (range0 (lines (initialize T) + 1)) Map.empty = Inr m"
    using loop by blast
  show ?thesis
    unfolding PieceTable_add_line_def new_line_def[symmetric]
    using assms m by (simp add: Let_def)
qed

lemma add_line_fresh_returns:
  assumes "0 \<le> n" "n \<le> lines (initialize T)"
  shows "raised (PieceTable_add_line n t (initialize T)) = None"
proof -
  obtain v where "line_indexes (initialize T) n = Some v"
    using assms line_indexes_initialize[of T n] by auto
  from add_line_fresh_eq[OF assms this] show ?thesis by (simp add: raised_def)
qed

lemma terminator_offsets_less:
  "i < length (terminator_offsets T) \<Longrightarrow> terminator_offsets T ! i < length T"
  using nth_mem[of i "terminator_offsets T"] by (simp add: terminator_offsets_def)

text \<open>
  On a freshly loaded table, \<open>add_line(n, text)\<close> with \<open>1 \<le> n \<le> lines\<close> puts the
  terminated text right after the \<open>n\<close>-th line terminator, where line \<open>n\<close> starts.
\<close>

lemma add_line_fresh_str:
  assumes "1 \<le> n" "n \<le> lines (initialize T)"
  shows "PieceTable_str (state_after (PieceTable_add_line n t (initialize T))) =
         Inr (take (Suc (terminator_offsets T ! nat (n - 1))) T @
              (if endswith t ''\<newline>'' then t else t @ ''\<newline>'') @
              drop (Suc (terminator_offsets T ! nat (n - 1))) T)"
proof -
  define k where "k = terminator_offsets T ! nat (n - 1)"
  define new_line where
    "new_line = (if \<not> endswith t ''\<newline>'' then t @ ''\<newline>'' else t)"
  have N: "lines (initialize T) = len (terminator_offsets T)"
    by (simp add: initialize_def make_line_indexes_char)
  have v: "line_indexes (initialize T) n = Some (int k)"
    using assms by (simp add: initialize_def make_line_indexes_char k_def)
  have "nat (n - 1) < length (terminator_offsets T)"
    using assms N by (simp add: len_def)
  then have k: "k < length T" unfolding k_def by (rule terminator_offsets_less)
  then have ne: "T \<noteq> []" by auto
  have sp: "fst (splice_loop \<lparr>source = Source_add, start = 0, length_p = len new_line\<rparr>
               (int k + 1) [\<lparr>source = Source_original, start = 0, length_p = len T\<rparr>] ([], 0)) =
        [\<lparr>source = Source_original, start = 0, length_p = int k + 1\<rparr>,
         \<lparr>source = Source_add, start = 0, length_p = len new_line\<rparr>,
         \<lparr>source = Source_original, start = int k + 1, length_p = len T - (int k + 1)\<rparr>]"
    using k by (simp add: len_def Let_def)
  have s1: "slice T 0 (0 + (int k + 1)) = take (Suc k) T"
    using k by (simp add: slice_def slice_bound_def len_def nat_add_distrib)
  have s2: "slice new_line 0 (0 + len new_line) = new_line"
    by (rule slice_whole)
  have s3: "slice T (int k + 1) (int k + 1 + (len T - (int k + 1))) = drop (Suc k) T"
    using k by (simp add: slice_def slice_bound_def len_def nat_add_distrib)
  have "PieceTable_add_line n t (initialize T) =
        Inr ((initialize T)\<lparr>add := add (initialize T) @ new_line,
               pieces := fst (splice_loop
                  \<lparr>source = Source_add, start = len (add (initialize T)),
                     length_p = len new_line\<rparr>
                  (int k + 1) (pieces (initialize T)) ([], 0)),
               lines := lines (initialize T) + 1\<rparr>)"
    unfolding new_line_def using add_line_fresh_eq[OF _ assms(2) v, of t] assms(1) by simp
  also have "\<dots> = Inr \<lparr>original = T, line_indexes = fst (make_line_indexes T),
        lines = snd (make_line_indexes T) + 1, add = new_line,
        pieces = [\<lparr>source = Source_original, start = 0, length_p = int k + 1\<rparr>,
         \<lparr>source = Source_add, start = 0, length_p = len new_line\<rparr>,
         \<lparr>source = Source_original, start = int k + 1, length_p = len T - (int k + 1)\<rparr>]\<rparr>"
    using ne sp by (simp add: initialize_def len_def)
  finally have "PieceTable_str (state_after (PieceTable_add_line n t (initialize T))) =
      Inr (take (Suc k) T @ new_line @ drop (Suc k) T)"
    using s1 s2 s3
    by (simp add: state_after_def PieceTable_str_def Source_distinct del: add_0)
  then show ?thesis by (simp add: k_def new_line_def)
qed

text \<open>The scenario of the specification, in both classes.\<close>

lemma add_line_scenario:
  "PieceTable_str (state_after (PieceTable_add_line 1 ''x'' (PieceTable_init ''a\<newline>b\<newline>c\<newline>'')))
     = Inr ''a\<newline>x\<newline>b\<newline>c\<newline>'' \<and>
   lines (state_after (PieceTable_add_line 1 ''x'' (PieceTable_init ''a\<newline>b\<newline>c\<newline>''))) = 4 \<and>
   ArrayOfStrings_str (state_after (ArrayOfStrings_add_line 1 ''x''
       \<lparr>data = [''a\<newline>'', ''b\<newline>'', ''c\<newline>'']\<rparr>)) = ''a\<newline>x\<newline>b\<newline>c\<newline>''"
  by code_simp

text \<open>
  C2. Inserting before the first line of a three-line document: \<open>add_line(0, "x")\<close> returns
  and puts the new line at offset \<open>1\<close>, inside the first line, instead of offset \<open>0\<close>.
\<close>

theorem add_line_at_first_line:
  "lines (PieceTable_init ''a\<newline>b\<newline>c\<newline>'') = 3 \<and>
   raised (PieceTable_add_line 0 ''x'' (PieceTable_init ''a\<newline>b\<newline>c\<newline>'')) = None \<and>
   PieceTable_str (state_after (PieceTable_add_line 0 ''x'' (PieceTable_init ''a\<newline>b\<newline>c\<newline>'')))
     = Inr ''ax\<newline>\<newline>b\<newline>c\<newline>''"
  by code_simp

text \<open>\<open>add_line\<close> never assigns \<open>self.line_indexes\<close>.\<close>

lemma add_line_keeps_line_indexes:
  "line_indexes (state_after (PieceTable_add_line n t self)) = line_indexes self"
  by (simp add: PieceTable_add_line_def Let_def state_after_def split: option.splits sum.splits)

text \<open>
  C5. After a successful \<open>add_line(1, "x")\<close> on a two-line document the line count is
  \<open>3\<close>, and \<open>line_indexes\<close> is what it was before the call: it has no entry for the new
  line and no entry is shifted.
\<close>

theorem add_line_discards_new_line_indexes:
  "raised (PieceTable_add_line 1 ''x'' (PieceTable_init ''a\<newline>b\<newline>'')) = None \<and>
   lines (state_after (PieceTable_add_line 1 ''x'' (PieceTable_init ''a\<newline>b\<newline>''))) = 3 \<and>
   map (line_indexes (state_after (PieceTable_add_line 1 ''x'' (PieceTable_init ''a\<newline>b\<newline>''))))
     [0, 1, 2, 3] = [Some 0, Some 1, Some 3, None] \<and>
   map (line_indexes (PieceTable_init ''a\<newline>b\<newline>'')) [0, 1, 2, 3] = [Some 0, Some 1, Some 3, None]"
  by code_simp

text \<open>
  C8. \<open>add_line(-1, "x")\<close> raises KeyError after the text has been appended to the add
  buffer: the object the raise leaves differs from the object before the call.
\<close>

theorem add_line_not_atomic:
  "PieceTable_add_line (- 1) ''x'' (PieceTable_init ''a\<newline>'') =
     Inl (KeyError (- 1), (PieceTable_init ''a\<newline>'')\<lparr>add := ''x\<newline>''\<rparr>) \<and>
   add (PieceTable_init ''a\<newline>'') = ''''"
  by (simp add: PieceTable_init_def initialize_def make_line_indexes_def enumerate_py_def
      PieceTable_add_line_def len_def endswith_def)

section \<open>ArrayOfStrings: editing, inserting and removing lines\<close>

lemma list_setitem_valid:
  "0 \<le> n \<Longrightarrow> n < len xs \<Longrightarrow>
   list_setitem xs n v = Inr (take (nat n) xs @ [v] @ drop (nat n + 1) xs)"
  by (simp add: list_setitem_def len_def upd_conv_take_nth_drop)

lemma list_pop_valid:
  "0 \<le> n \<Longrightarrow> n < len xs \<Longrightarrow>
   list_pop xs n = Inr (take (nat n) xs @ drop (nat n + 1) xs)"
  by (simp add: list_pop_def len_def)


lemma list_insert_valid:
  "0 \<le> n \<Longrightarrow> n \<le> len xs \<Longrightarrow>
   list_insert xs n v = Inr (take (nat n) xs @ [v] @ drop (nat n) xs)"
  by (simp add: list_insert_def len_def min_def)

lemma list_insert_after_pop:
  assumes "0 \<le> n" "n < len xs"
  shows "list_insert (take (nat n) xs @ drop (Suc (nat n)) xs) n v =
         Inr (take (nat n) xs @ v # drop (Suc (nat n)) xs)"
proof -
  have "n \<le> len (take (nat n) xs @ drop (Suc (nat n)) xs)"
    using assms by (simp add: len_def)
  from list_insert_valid[OF assms(1) this]
  have "list_insert (take (nat n) xs @ drop (Suc (nat n)) xs) n v =
      Inr (take (nat n) (take (nat n) xs @ drop (Suc (nat n)) xs) @ [v] @
      drop (nat n) (take (nat n) xs @ drop (Suc (nat n)) xs))" .
  also have "take (nat n) (take (nat n) xs @ drop (Suc (nat n)) xs) = take (nat n) xs"
    using assms by (auto simp: len_def min_def)
  also have "drop (nat n) (take (nat n) xs @ drop (Suc (nat n)) xs) = drop (Suc (nat n)) xs"
    using assms by (auto simp: len_def min_def)
  finally show ?thesis by simp
qed

text \<open>
  C6, as the code has it. In \<open>ArrayOfStrings\<close>, for every line number \<open>n\<close> with
  \<open>0 \<le> n < len(data)\<close>, \<open>edit_line(n, text)\<close> returns and gives the same object as
  \<open>remove_line(n)\<close> followed by \<open>add_line(n, text)\<close>. In \<open>PieceTable\<close>, \<open>edit_line\<close>
  raises NotImplementedError on every input and leaves the object as it was.
\<close>

theorem edit_line_equivalence:
  "(0 \<le> n \<and> n < len (data a) \<longrightarrow>
      raised (ArrayOfStrings_edit_line n t a) = None \<and>
      raised (ArrayOfStrings_remove_line n a) = None \<and>
      ArrayOfStrings_edit_line n t a =
        ArrayOfStrings_add_line n t (state_after (ArrayOfStrings_remove_line n a))) \<and>
   PieceTable_edit_line n t self = Inl (NotImplementedError ''No Worky'', self)"
  by (simp add: ArrayOfStrings_edit_line_def ArrayOfStrings_remove_line_def
      ArrayOfStrings_add_line_def raised_def state_after_def list_setitem_valid
      list_pop_valid list_insert_after_pop PieceTable_edit_line_def Let_def)

text \<open>C6 at the second line of a two-line list.\<close>

theorem edit_line_equivalence_witness:
  "(0::int) \<le> 1 \<and> 1 < len (data \<lparr>data = [''a\<newline>'', ''b\<newline>'']\<rparr>) \<and>
   ArrayOfStrings_edit_line 1 ''y'' \<lparr>data = [''a\<newline>'', ''b\<newline>'']\<rparr> =
     Inr \<lparr>data = [''a\<newline>'', ''y\<newline>'']\<rparr> \<and>
   ArrayOfStrings_add_line 1 ''y''
       (state_after (ArrayOfStrings_remove_line 1 \<lparr>data = [''a\<newline>'', ''b\<newline>'']\<rparr>)) =
     Inr \<lparr>data = [''a\<newline>'', ''y\<newline>'']\<rparr>"
  using edit_line_equivalence [of 1 "\<lparr>data = [''a\<newline>'', ''b\<newline>'']\<rparr>" "''y''"]
  by (simp add: len_def ArrayOfStrings_edit_line_def list_setitem_def endswith_def)

text \<open>
  C6 as stated fails on a piece table holding one line: \<open>edit_line(0, "y")\<close> raises.
\<close>

theorem edit_line_counterexample:
  "0 \<le> (0::int) \<and> 0 < lines (PieceTable_init ''a\<newline>'') \<and>
   raised (PieceTable_edit_line 0 ''y'' (PieceTable_init ''a\<newline>'')) =
     Some (NotImplementedError ''No Worky'')"
  by code_simp

text \<open>
  C9, as the code has it. In \<open>ArrayOfStrings\<close>, for every \<open>n\<close> with \<open>0 \<le> n < L\<close>,
  \<open>remove_line(n)\<close> returns and leaves the \<open>L - 1\<close> lines before and after line \<open>n\<close>, in
  their order. \<open>PieceTable\<close> defines no \<open>remove_line\<close>: the call raises AttributeError and
  changes nothing.
\<close>

theorem remove_line_shape:
  "(0 \<le> n \<and> n < len (data a) \<longrightarrow>
      raised (ArrayOfStrings_remove_line n a) = None \<and>
      data (state_after (ArrayOfStrings_remove_line n a)) =
        take (nat n) (data a) @ drop (nat n + 1) (data a) \<and>
      len (data (state_after (ArrayOfStrings_remove_line n a))) = len (data a) - 1) \<and>
   PieceTable_call (Remove_line n) (fs, self) = Inl (AttributeError ''remove_line'', (fs, self))"
  by (auto simp: ArrayOfStrings_remove_line_def raised_def state_after_def list_pop_valid
      len_def)

text \<open>C9 at the middle line of a three-line list.\<close>

theorem remove_line_shape_witness:
  "(0::int) \<le> 1 \<and> 1 < len (data \<lparr>data = [''a\<newline>'', ''b\<newline>'', ''c\<newline>'']\<rparr>) \<and>
   data (state_after (ArrayOfStrings_remove_line 1 \<lparr>data = [''a\<newline>'', ''b\<newline>'', ''c\<newline>'']\<rparr>)) =
     [''a\<newline>'', ''c\<newline>'']"
  using remove_line_shape [of 1 "\<lparr>data = [''a\<newline>'', ''b\<newline>'', ''c\<newline>'']\<rparr>"]
  by (simp add: len_def)

text \<open>
  C9 as stated fails on a piece table holding one line: \<open>remove_line(0)\<close> raises
  AttributeError.
\<close>

theorem remove_line_counterexample:
  "PieceTable_call (Remove_line 0) (Map.empty, PieceTable_init ''a\<newline>'') =
     Inl (AttributeError ''remove_line'', (Map.empty, PieceTable_init ''a\<newline>''))"
  by simp


section \<open>Line numbers out of range\<close>







text \<open>
  The line index that \<open>add_line\<close> leaves behind is the one built at load time, so on a
  table that already had an insertion \<open>add_line(L, text)\<close> finds no entry for \<open>L\<close>.
\<close>

lemma add_line_stale_index:
  "lines (state_after (PieceTable_add_line 1 ''x'' (PieceTable_init ''a\<newline>''))) = 2 \<and>
   raised (PieceTable_add_line 2 ''y''
      (state_after (PieceTable_add_line 1 ''x'' (PieceTable_init ''a\<newline>'')))) =
     Some (KeyError 2)"
  by (simp add: PieceTable_init_def initialize_def make_line_indexes_def enumerate_py_def
      PieceTable_add_line_def len_def endswith_def state_after_def raised_def range0_def
      upto.simps Let_def)




end
